theory Spec2Isabelle
  imports Complex_Main "HOL-Library.AList"
begin

section \<open>Configuration constants\<close>

definition MAX_SQL_ATTEMPTS :: nat where
  "MAX_SQL_ATTEMPTS = 3"

definition MAX_REQUESTS_PER_MINUTE :: nat where
  "MAX_REQUESTS_PER_MINUTE = 10"

definition MAX_RESULTS :: nat where
  "MAX_RESULTS = 50"

section \<open>Exceptions\<close>

text \<open>
  The subclasses of Python's \<open>Exception\<close> that the program raises or receives from its
  libraries. \<open>PyodbcError\<close> carries the text \<open>str(e)\<close> of a \<open>pyodbc.Error\<close>;
  \<open>OtherException\<close> stands for any other subclass of \<open>Exception\<close> coming out of a
  library call. Interpreter-level \<open>BaseException\<close>s (a keyboard interrupt, an exit
  request) are not subclasses of \<open>Exception\<close> and are outside the model.
\<close>

datatype exc =
    PyodbcError string
  | ValueError
  | KeyError
  | ConnectionError
  | RuntimeError
  | OtherException

text \<open>Sequencing of fallible steps: the first exception ends the computation.\<close>

definition and_then :: "exc + 'a \<Rightarrow> ('a \<Rightarrow> exc + 'b) \<Rightarrow> exc + 'b" where
  "and_then r f = (case r of Inl e \<Rightarrow> Inl e | Inr x \<Rightarrow> f x)"

section \<open>Strings\<close>

text \<open>
  A Python \<open>str\<close> is modelled as a \<open>string\<close>, one \<open>char\<close> per code point, so the
  model covers the strings whose code points are below 256 (ASCII and Latin-1). On that
  range the character classes below are the ones of Python 3: \<open>str.isspace\<close> and the
  regular-expression class \<open>\s\<close> agree, \<open>\d\<close> is the ASCII digits, \<open>\w\<close> is the
  alphanumeric characters and the underscore, and \<open>str.lower\<close> maps one character to
  one character.
\<close>

definition newline :: char where
  "newline = CHR 0x0A"

definition backslash :: char where
  "backslash = CHR 0x5C"

definition is_space :: "char \<Rightarrow> bool" where
  "is_space c =
     (let n = (of_char c :: nat)
      in (9 \<le> n \<and> n \<le> 13) \<or> (28 \<le> n \<and> n \<le> 32) \<or> n = 133 \<or> n = 160)"

definition is_digit :: "char \<Rightarrow> bool" where
  "is_digit c = (let n = (of_char c :: nat) in 48 \<le> n \<and> n \<le> 57)"

definition is_word :: "char \<Rightarrow> bool" where
  "is_word c =
     (let n = (of_char c :: nat)
      in (48 \<le> n \<and> n \<le> 57) \<or> (65 \<le> n \<and> n \<le> 90) \<or> n = 95 \<or> (97 \<le> n \<and> n \<le> 122)
         \<or> n = 170 \<or> n = 178 \<or> n = 179 \<or> n = 181 \<or> n = 185 \<or> n = 186
         \<or> (188 \<le> n \<and> n \<le> 190) \<or> (192 \<le> n \<and> n \<le> 214)
         \<or> (216 \<le> n \<and> n \<le> 246) \<or> 248 \<le> n)"

definition ascii_alpha :: "char \<Rightarrow> bool" where
  "ascii_alpha c =
     (let n = (of_char c :: nat) in (65 \<le> n \<and> n \<le> 90) \<or> (97 \<le> n \<and> n \<le> 122))"

definition ascii_alnum :: "char \<Rightarrow> bool" where
  "ascii_alnum c = (is_digit c \<or> ascii_alpha c)"

definition lower_char :: "char \<Rightarrow> char" where
  "lower_char c =
     (let n = (of_char c :: nat)
      in if (65 \<le> n \<and> n \<le> 90) \<or> (192 \<le> n \<and> n \<le> 222 \<and> n \<noteq> 215)
         then char_of (n + 32) else c)"

text \<open>\<open>s.lower()\<close>, \<open>s.strip()\<close>, \<open>s.startswith(p)\<close>, \<open>s.endswith(p)\<close> and
  \<open>sub in s\<close>.\<close>

definition lower :: "string \<Rightarrow> string" where
  "lower s = map lower_char s"

definition strip :: "string \<Rightarrow> string" where
  "strip s = rev (dropWhile is_space (rev (dropWhile is_space s)))"

definition startswith :: "string \<Rightarrow> string \<Rightarrow> bool" where
  "startswith s p = (take (length p) s = p)"

definition endswith :: "string \<Rightarrow> string \<Rightarrow> bool" where
  "endswith s p = (length p \<le> length s \<and> drop (length s - length p) s = p)"

fun contains :: "string \<Rightarrow> string \<Rightarrow> bool" where
  "contains [] sub = (sub = [])"
| "contains (c # cs) sub = (startswith (c # cs) sub \<or> contains cs sub)"

text \<open>\<open>s.split(sep)\<close> for a one-character separator: never the empty list, so that
  \<open>s.split(sep)[0]\<close> is its head. \<open>sep.join(parts)\<close>.\<close>

fun str_split :: "char \<Rightarrow> string \<Rightarrow> string list" where
  "str_split sep [] = [Nil]"
| "str_split sep (c # cs) =
     (if c = sep then [] # str_split sep cs
      else (case str_split sep cs of [] \<Rightarrow> [c] # [] | p # ps \<Rightarrow> (c # p) # ps))"

fun str_join :: "string \<Rightarrow> string list \<Rightarrow> string" where
  "str_join sep [] = []"
| "str_join sep [x] = x"
| "str_join sep (x # y # ys) = x @ sep @ str_join sep (y # ys)"

text \<open>The decimal digits of a number, as an f-string prints it.\<close>

definition digit_char :: "nat \<Rightarrow> char" where
  "digit_char d = char_of (48 + d)"

function str_of_nat :: "nat \<Rightarrow> string" where
  "str_of_nat n =
     (if n < 10 then [digit_char n] else str_of_nat (n div 10) @ [digit_char (n mod 10)])"
  by pat_completeness auto
termination
  by (relation "measure id") auto

text \<open>\<open>dict(pairs)\<close>: an insertion-ordered dictionary, a later value for a key replacing
  the earlier one in place.\<close>

definition py_dict :: "('k \<times> 'v) list \<Rightarrow> ('k \<times> 'v) list" where
  "py_dict kvs = foldl (\<lambda>d (k, v). AList.update k v d) [] kvs"

text \<open>\<open>d[key]\<close>: a missing key raises \<open>KeyError\<close>.\<close>

definition getitem :: "(string \<times> 'v) list \<Rightarrow> string \<Rightarrow> exc + 'v" where
  "getitem row key = (case map_of row key of None \<Rightarrow> Inl KeyError | Some v \<Rightarrow> Inr v)"

section \<open>Regular expressions\<close>

text \<open>
  The patterns of the program are sequences of the following items; a repetition is
  always over a single character class. A pattern is an \<open>rx list\<close>, matched left to
  right by backtracking in the order of Python's \<open>re\<close> module:
  \<^item> \<open>Chr f\<close>: one character of the class \<open>f\<close> (a literal, \<open>.\<close>, a bracket class);
  \<^item> \<open>Rep f n greedy\<close>: at least \<open>n\<close> characters of the class \<open>f\<close>; the greedy form
    (\<open>*\<close>, \<open>+\<close>, \<open>{n,}\<close>) tries the longest run first, the lazy form (\<open>*?\<close>) the
    shortest;
  \<^item> \<open>Alt ws\<close>: a group of alternative literal words, tried in order;
  \<^item> \<open>WordB\<close>: the word boundary;
  \<^item> \<open>EndStr\<close>: the dollar anchor without the MULTILINE flag (the end of the string, or
    just before a newline that ends the string);
  \<^item> \<open>EndLine\<close>: the dollar anchor with the MULTILINE flag (the end of the string, or just
    before any newline).
  The flags DOTALL and IGNORECASE are written into the classes: the dot is \<open>any_char\<close>
  with DOTALL and \<open>not_newline\<close> without, a literal is \<open>lit\<close> without IGNORECASE and
  \<open>lit_i\<close> with it.
\<close>

datatype rx =
    Chr "char \<Rightarrow> bool"
  | Rep "char \<Rightarrow> bool" nat bool
  | Alt "string list"
  | WordB
  | EndStr
  | EndLine

fun first_some :: "'a option list \<Rightarrow> 'a option" where
  "first_some [] = None"
| "first_some (None # xs) = first_some xs"
| "first_some (Some x # xs) = Some x"

text \<open>The matcher knows the character before the current position (for the word
  boundary) and the rest of the string; it returns the number of characters consumed by
  the first successful way of matching.\<close>

definition prev_after :: "char option \<Rightarrow> string \<Rightarrow> char option" where
  "prev_after prev consumed = (if consumed = [] then prev else Some (last consumed))"

definition word_at :: "char option \<Rightarrow> bool" where
  "word_at c = (case c of None \<Rightarrow> False | Some x \<Rightarrow> is_word x)"

definition next_char :: "string \<Rightarrow> char option" where
  "next_char s = (case s of [] \<Rightarrow> None | c # _ \<Rightarrow> Some c)"

fun rx_match :: "rx list \<Rightarrow> char option \<Rightarrow> string \<Rightarrow> nat option" where
  "rx_match [] prev s = Some 0"
| "rx_match (Chr f # r) prev s =
     (case s of
        [] \<Rightarrow> None
      | c # cs \<Rightarrow> if f c then map_option Suc (rx_match r (Some c) cs) else None)"
| "rx_match (Rep f n greedy # r) prev s =
     (let k = length (takeWhile f s);
          counts = (if greedy then rev [n..<Suc k] else [n..<Suc k])
      in first_some
           (map (\<lambda>j. map_option ((+) j) (rx_match r (prev_after prev (take j s)) (drop j s)))
              counts))"
| "rx_match (Alt ws # r) prev s =
     first_some
       (map (\<lambda>w. if startswith s w
                  then map_option ((+) (length w))
                         (rx_match r (prev_after prev w) (drop (length w) s))
                  else None) ws)"
| "rx_match (WordB # r) prev s =
     (if word_at prev \<noteq> word_at (next_char s) then rx_match r prev s else None)"
| "rx_match (EndStr # r) prev s =
     (if s = [] \<or> s = [newline] then rx_match r prev s else None)"
| "rx_match (EndLine # r) prev s =
     (if next_char s = None \<or> next_char s = Some newline then rx_match r prev s else None)"

text \<open>\<open>re.search(pattern, s)\<close> as a truth value: some position of \<open>s\<close> starts a
  match.\<close>

fun search_from :: "rx list \<Rightarrow> char option \<Rightarrow> string \<Rightarrow> bool" where
  "search_from p prev [] = (rx_match p prev [] \<noteq> None)"
| "search_from p prev (c # cs) =
     (rx_match p prev (c # cs) \<noteq> None \<or> search_from p (Some c) cs)"

definition re_search :: "rx list \<Rightarrow> string \<Rightarrow> bool" where
  "re_search p s = search_from p None s"

text \<open>\<open>re.sub(pattern, repl, s)\<close>: the non-overlapping matches, leftmost first, are
  replaced by \<open>repl\<close>. Every pattern the program substitutes begins with a literal
  character or a repetition of at least one character, so no match is empty; a position
  with no match, or an empty one, keeps its character. \<open>skip\<close> counts the characters of
  the current match still to be dropped.\<close>

fun sub_from :: "rx list \<Rightarrow> string \<Rightarrow> nat \<Rightarrow> char option \<Rightarrow> string \<Rightarrow> string" where
  "sub_from p repl skip prev [] = []"
| "sub_from p repl skip prev (c # cs) =
     (if skip > 0 then sub_from p repl (skip - 1) (Some c) cs
      else (case rx_match p prev (c # cs) of
              Some (Suc n) \<Rightarrow> repl @ sub_from p repl n (Some c) cs
            | _ \<Rightarrow> c # sub_from p repl 0 (Some c) cs))"

definition re_sub :: "rx list \<Rightarrow> string \<Rightarrow> string \<Rightarrow> string" where
  "re_sub p repl s = sub_from p repl 0 None s"

definition lit :: "string \<Rightarrow> rx list" where
  "lit w = map (\<lambda>c. Chr (\<lambda>d. d = c)) w"

definition lit_i :: "string \<Rightarrow> rx list" where
  "lit_i w = map (\<lambda>c. Chr (\<lambda>d. lower_char d = lower_char c)) w"

definition any_char :: "char \<Rightarrow> bool" where
  "any_char c = True"

definition not_newline :: "char \<Rightarrow> bool" where
  "not_newline c = (c \<noteq> newline)"

definition slash_class :: "char \<Rightarrow> bool" where
  "slash_class c = (c = CHR ''/'' \<or> c = backslash)"

section \<open>SafetyGate\<close>

text \<open>
  \<open>DatabaseManager._is_query_safe\<close>. The seven \<open>dangerous_patterns\<close> of the source,
  in its order, none with a flag:
  \<^enum> \<^verbatim>\<open>\b(drop|delete|truncate|alter|shutdown|insert|update|merge)\b\<close>
  \<^enum> \<^verbatim>\<open>;.*\b(exec|execute|xp_cmdshell|sp_)\b\<close>
  \<^enum> \<^verbatim>\<open>\bunion\b.*\bselect\b\<close>
  \<^enum> \<^verbatim>\<open>\bselect\b.*\bfrom\b.*\bwhere\b.*\b1\s*=\s*1\b\<close>
  \<^enum> \<^verbatim>\<open>/\*.*\*/\<close>
  \<^enum> \<^verbatim>\<open>--.*$\<close>
  \<^enum> a bracket class of the slash and the backslash.

  The query is lower-cased, and it is safe when no pattern is found in it.
\<close>

definition dangerous_patterns :: "rx list list" where
  "dangerous_patterns =
     [ [WordB,
        Alt [''drop'', ''delete'', ''truncate'', ''alter'', ''shutdown'', ''insert'',
             ''update'', ''merge''],
        WordB],
       lit '';'' @ [Rep not_newline 0 True, WordB,
                    Alt [''exec'', ''execute'', ''xp_cmdshell'', ''sp_''], WordB],
       [WordB] @ lit ''union'' @ [WordB, Rep not_newline 0 True, WordB] @ lit ''select''
         @ [WordB],
       [WordB] @ lit ''select'' @ [WordB, Rep not_newline 0 True, WordB] @ lit ''from''
         @ [WordB, Rep not_newline 0 True, WordB] @ lit ''where''
         @ [WordB, Rep not_newline 0 True, WordB] @ lit ''1'' @ [Rep is_space 0 True]
         @ lit ''='' @ [Rep is_space 0 True] @ lit ''1'' @ [WordB],
       lit ''/*'' @ [Rep not_newline 0 True] @ lit ''*/'',
       lit ''--'' @ [Rep not_newline 0 True, EndStr],
       [Chr slash_class] ]"

definition is_query_safe :: "string \<Rightarrow> bool" where
  "is_query_safe query =
     (let query_lower = lower query
      in \<not> list_ex (\<lambda>pattern. re_search pattern query_lower) dangerous_patterns)"

section \<open>SqlSynthesizer\<close>

subsection \<open>Cleaning\<close>

text \<open>
  \<open>OllamaLLM._clean_sql\<close>, statement by statement:
  \<^enum> three substitutions with DOTALL and IGNORECASE that cut the text at the first
    code fence of three backticks, at the first \<^verbatim>\<open>[/INST]\<close> and at the first
    \<^verbatim>\<open><<SYS>>\<close> (each pattern is the marker followed by \<^verbatim>\<open>.*$\<close>);
  \<^enum> \<^verbatim>\<open>/\*.*?\*/\<close> with DOTALL, then \<^verbatim>\<open>--.*$\<close> with MULTILINE, both
    replaced by nothing;
  \<^enum> the slash and the backslash are deleted;
  \<^enum> \<^verbatim>\<open>\s+\<close> becomes one space, and the result is stripped;
  \<^enum> when the lower-cased text has \<open>select\<close> and has no \<open>top\<close> followed by a space,
    every \<^verbatim>\<open>select\s+\<close> (IGNORECASE) becomes \<open>select top 50\<close> and a space;
  \<^enum> the text before the first semicolon is kept and stripped;
  \<^enum> the non-empty stripped lines are collected up to the first one that ends with a
    semicolon and joined by a space.
\<close>

definition select_ws :: "rx list" where
  "select_ws = lit_i ''select'' @ [Rep is_space 1 True]"

definition select_top :: string where
  "select_top = ''select top '' @ str_of_nat MAX_RESULTS @ '' ''"

fun keep_lines :: "string list \<Rightarrow> string list" where
  "keep_lines [] = []"
| "keep_lines (l # ls) =
     (let line = strip l
      in if line \<noteq> []
         then (if endswith line '';'' then [line] else line # keep_lines ls)
         else keep_lines ls)"

definition clean_sql :: "string \<Rightarrow> string" where
  "clean_sql sql0 =
     (let sql1 = re_sub (lit_i ''```'' @ [Rep any_char 0 True, EndStr]) [] sql0;
          sql2 = re_sub (lit_i ''[/INST]'' @ [Rep any_char 0 True, EndStr]) [] sql1;
          sql3 = re_sub (lit_i ''<<SYS>>'' @ [Rep any_char 0 True, EndStr]) [] sql2;
          sql4 = re_sub (lit ''/*'' @ [Rep any_char 0 False] @ lit ''*/'') [] sql3;
          sql5 = re_sub (lit ''--'' @ [Rep not_newline 0 True, EndLine]) [] sql4;
          sql6 = re_sub [Chr slash_class] [] sql5;
          sql7 = strip (re_sub [Rep is_space 1 True] '' '' sql6);
          sql8 = (if contains (lower sql7) ''select'' \<and> \<not> contains (lower sql7) ''top ''
                  then re_sub select_ws select_top sql7 else sql7);
          sql9 = strip (hd (str_split CHR '';'' sql8));
          sql_lines = keep_lines (str_split newline sql9)
      in strip (str_join '' '' sql_lines))"

subsection \<open>Validation\<close>

text \<open>
  \<open>OllamaLLM._validate_sql\<close>. Each forbidden join is
  \<^verbatim>\<open>join\s+TABLE\s+.*=\s*KEY\<close>; the last one continues with
  \<^verbatim>\<open>\s+.*!=\s*orders\.shipvia\<close>.
\<close>

definition join_rule :: "string \<Rightarrow> string \<Rightarrow> rx list" where
  "join_rule table key =
     lit ''join'' @ [Rep is_space 1 True] @ lit table
       @ [Rep is_space 1 True, Rep not_newline 0 True]
       @ lit ''='' @ [Rep is_space 0 True] @ lit key"

definition invalid_joins :: "rx list list" where
  "invalid_joins =
     [ join_rule ''products'' ''employees.employeeid'',
       join_rule ''orders'' ''suppliers.supplierid'',
       join_rule ''orders'' ''shippers.shipperid''
         @ [Rep is_space 1 True, Rep not_newline 0 True]
         @ lit ''!='' @ [Rep is_space 0 True] @ lit ''orders.shipvia'' ]"

definition validate_sql :: "string \<Rightarrow> bool" where
  "validate_sql sql =
     (let sql_lower = lower sql
      in if re_search (join_rule ''customers'' ''employees.employeeid'') sql_lower
            \<or> re_search (join_rule ''employees'' ''customers.customerid'') sql_lower
         then False
         else if list_ex (\<lambda>pattern. re_search pattern sql_lower) invalid_joins
         then False
         else True)"

subsection \<open>Generation\<close>

text \<open>
  \<open>OllamaLLM.generate_sql\<close>. One attempt reads the schema, renders the prompt and
  calls the model; that prompting phase is given by its outcome, \<open>Inr response\<close> with the
  text of the model or \<open>Inl e\<close> when any of its steps raised. The rest of the attempt
  cleans the response, runs the five validation checks in the order of the source (each
  raising \<open>ValueError\<close>) and, when the lower-cased statement has no \<open>top 50\<close>, injects
  it after every \<^verbatim>\<open>select\s+\<close>.
\<close>

definition attempt_sql :: "exc + string \<Rightarrow> exc + string" where
  "attempt_sql prompting =
     (case prompting of
        Inl e \<Rightarrow> Inl e
      | Inr response \<Rightarrow>
          (let sql = clean_sql response
           in if \<not> startswith (strip (lower sql)) ''select'' then Inl ValueError
              else if list_ex (\<lambda>c. contains (lower sql) c) [''/*'', ''--'', ''/'']
                   then Inl ValueError
              else if \<not> contains (lower sql) ''top'' \<and> contains (lower sql) ''limit''
                   then Inl ValueError
              else if \<not> is_query_safe sql then Inl ValueError
              else if \<not> validate_sql sql then Inl ValueError
              else Inr (if \<not> contains (lower sql) (''top '' @ str_of_nat MAX_RESULTS)
                        then re_sub select_ws select_top sql else sql)))"

text \<open>The loop over \<open>range(MAX_SQL_ATTEMPTS)\<close>: \<open>llm attempt\<close> is the outcome of the
  prompting phase of that attempt. A failed attempt returns \<open>None\<close> when it is the last
  one and goes on to the next one otherwise.\<close>

function generate_sql_from :: "(nat \<Rightarrow> exc + string) \<Rightarrow> nat \<Rightarrow> string option" where
  "generate_sql_from llm attempt =
     (if attempt < MAX_SQL_ATTEMPTS
      then (case attempt_sql (llm attempt) of
              Inr sql \<Rightarrow> Some sql
            | Inl e \<Rightarrow> if attempt = MAX_SQL_ATTEMPTS - 1 then None
                       else generate_sql_from llm (attempt + 1))
      else None)"
  by pat_completeness auto
termination
  by (relation "measure (\<lambda>(llm, attempt). MAX_SQL_ATTEMPTS - attempt)") auto

definition generate_sql :: "(nat \<Rightarrow> exc + string) \<Rightarrow> string option" where
  "generate_sql llm = generate_sql_from llm 0"

section \<open>ResponseFormatter\<close>

text \<open>
  \<open>OllamaLLM._sanitize_data\<close>: the e-mail pattern
  \<^verbatim>\<open>\b[A-Za-z0-9._%+-]+@[A-Za-z0-9.-]+\.[A-Z|a-z]{2,}\b\<close> becomes \<open>[EMAIL]\<close>, then
  \<^verbatim>\<open>\b\d{10,}\b\<close> becomes \<open>[PHONE]\<close>, then a value whose lower-cased text
  contains one of the five words is replaced by \<open>[REDACTED]\<close>. The function receives the
  value only.
\<close>

definition email_pattern :: "rx list" where
  "email_pattern =
     [WordB, Rep (\<lambda>c. ascii_alnum c \<or> c \<in> set ''._%+-'') 1 True] @ lit ''@''
       @ [Rep (\<lambda>c. ascii_alnum c \<or> c \<in> set ''.-'') 1 True] @ lit ''.''
       @ [Rep (\<lambda>c. ascii_alpha c \<or> c = CHR ''|'') 2 True, WordB]"

definition phone_pattern :: "rx list" where
  "phone_pattern = [WordB, Rep is_digit 10 True, WordB]"

definition sanitize_data :: "string \<Rightarrow> string" where
  "sanitize_data value0 =
     (let value1 = re_sub email_pattern ''[EMAIL]'' value0;
          value2 = re_sub phone_pattern ''[PHONE]'' value1
      in if list_ex (\<lambda>word. contains (lower value2) word)
              [''password'', ''secret'', ''address'', ''phone'', ''fax'']
         then ''[REDACTED]'' else value2)"

text \<open>
  \<open>OllamaLLM._format_all_records\<close>. A row of the data frame is the list of its
  columns, each with \<open>str(v)\<close> of its cell, or \<open>None\<close> for a cell that \<open>pd.notna\<close>
  rejects. Every kept cell is printed as the bullet, the column name, a colon and the
  sanitized text. The two marker characters of the output, a pushpin and a bullet, lie
  beyond Latin-1 and are written as their UTF-8 bytes; nothing in the program inspects
  them.
\<close>

definition pushpin :: string where
  "pushpin = [CHR 0xF0, CHR 0x9F, CHR 0x93, CHR 0x8C]"

definition bullet :: string where
  "bullet = [CHR 0xE2, CHR 0x80, CHR 0xA2]"

type_synonym data_row = "(string \<times> string option) list"

definition format_record :: "nat \<Rightarrow> data_row \<Rightarrow> string" where
  "format_record idx row =
     str_join [newline]
       ((pushpin @ '' Record '' @ str_of_nat idx @ '':'')
        # concat (map (\<lambda>(k, v). case v of
                                     None \<Rightarrow> []
                                   | Some text \<Rightarrow>
                                       [bullet @ '' '' @ k @ '': '' @ sanitize_data text])
                    row))"

definition format_all_records :: "data_row list \<Rightarrow> string" where
  "format_all_records df =
     str_join [newline, newline]
       (map (\<lambda>(idx, row). format_record idx row) (zip [1..<Suc (length df)] df))"

section \<open>Database connections\<close>

text \<open>
  The database driver is the environment of the program. A \<open>world\<close> fixes how it
  answers: whether \<open>DB_SERVER\<close> and \<open>DB_NAME\<close> are set, the outcome of the \<open>n\<close>-th call
  of \<open>pyodbc.connect\<close>, of \<open>conn.cursor()\<close>, of \<open>cursor.execute(q)\<close> with the column
  names of \<open>cursor.description\<close> and the outcome of \<open>cursor.fetchall()\<close>, of leaving the
  cursor's \<open>with\<close> block, and of \<open>commit\<close>, \<open>rollback\<close> and \<open>close\<close>. Every call
  issued to the driver is appended to a trace, whether it succeeds or not.
\<close>

datatype reply = Ok | Fails exc

datatype 'v fetch_reply = Fetched "'v list list" | FetchFails exc

datatype 'v exec_reply = Executed "string list option" "'v fetch_reply" | ExecFails exc

record 'v world =
  env_set :: bool
  on_connect :: "nat \<Rightarrow> reply"
  on_cursor :: reply
  on_execute :: "string \<Rightarrow> 'v exec_reply"
  on_cursor_exit :: reply
  on_commit :: reply
  on_rollback :: reply
  on_close :: reply

datatype event = Connect | Cursor | Execute string | CursorExit | Commit | Rollback | Close

type_synonym trace = "event list"

text \<open>
  \<open>DatabaseManager.get_connection\<close> is a generator used as a context manager. Its
  \<open>while attempt < MAX_SQL_ATTEMPTS\<close> loop runs until the generator yields a connection
  (\<open>Inr attempt\<close>) or raises. A missing setting raises \<open>ValueError\<close>, which the loop
  does not catch; a \<open>pyodbc.Error\<close> from \<open>connect\<close> is caught, the connection of an
  earlier round (if any, \<open>has_conn\<close>) is closed with its errors ignored, and the next
  attempt follows; after the last attempt \<open>ConnectionError\<close> is raised.
\<close>

function connect_loop :: "'v world \<Rightarrow> nat \<Rightarrow> bool \<Rightarrow> trace \<Rightarrow> (exc + nat) \<times> trace" where
  "connect_loop w attempt has_conn tr =
     (if attempt < MAX_SQL_ATTEMPTS
      then (if \<not> env_set w then (Inl ValueError, tr)
            else (case on_connect w attempt of
                    Ok \<Rightarrow> (Inr attempt, tr @ [Connect])
                  | Fails (PyodbcError m) \<Rightarrow>
                      connect_loop w (attempt + 1) has_conn
                        (tr @ [Connect] @ (if has_conn then [Close] else []))
                  | Fails e \<Rightarrow> (Inl e, tr @ [Connect])))
      else (Inl ConnectionError, tr))"
  by pat_completeness auto
termination
  by (relation "measure (\<lambda>(w, attempt, has_conn, tr). MAX_SQL_ATTEMPTS - attempt)") auto

text \<open>
  An exception \<open>e\<close> that leaves the inner \<open>try\<close> of the generator after the yield. A
  \<open>pyodbc.Error\<close> is caught by the handler of the loop, which closes the connection
  again, counts the attempt and continues the loop: when that loop yields a second
  connection, the context manager raises \<open>RuntimeError\<close> (the generator did not stop);
  when it raises, that exception leaves. Any other exception leaves as it is.
\<close>

definition after_failure :: "'v world \<Rightarrow> nat \<Rightarrow> exc \<Rightarrow> trace \<Rightarrow> exc \<times> trace" where
  "after_failure w attempt e tr =
     (case e of
        PyodbcError m \<Rightarrow>
          (case connect_loop w (attempt + 1) True (tr @ [Close]) of
             (Inr a, tr1) \<Rightarrow> (RuntimeError, tr1)
           | (Inl e1, tr1) \<Rightarrow> (e1, tr1))
      | _ \<Rightarrow> (e, tr))"

definition or_raised :: "exc \<Rightarrow> reply \<Rightarrow> exc" where
  "or_raised e r = (case r of Ok \<Rightarrow> e | Fails e1 \<Rightarrow> e1)"

text \<open>The body of the \<open>with\<close> block raised \<open>e\<close>: it is thrown into the generator, whose
  \<open>except Exception\<close> rolls back and re-raises and whose \<open>finally\<close> closes the
  connection; an exception of \<open>rollback\<close> or \<open>close\<close> replaces the one in flight.\<close>

definition exit_raising :: "'v world \<Rightarrow> nat \<Rightarrow> exc \<Rightarrow> trace \<Rightarrow> exc \<times> trace" where
  "exit_raising w attempt e tr =
     (let e1 = or_raised e (on_rollback w);
          e2 = or_raised e1 (on_close w)
      in after_failure w attempt e2 (tr @ [Rollback, Close]))"

text \<open>The body of the \<open>with\<close> block ended normally: the generator commits and returns
  through its \<open>finally\<close>. \<open>None\<close> is the normal end; a failing \<open>commit\<close> takes the
  path of \<open>exit_raising\<close>, a failing \<open>close\<close> that of \<open>after_failure\<close>.\<close>

definition exit_normal :: "'v world \<Rightarrow> nat \<Rightarrow> trace \<Rightarrow> exc option \<times> trace" where
  "exit_normal w attempt tr =
     (case on_commit w of
        Ok \<Rightarrow>
          (case on_close w of
             Ok \<Rightarrow> (None, tr @ [Commit, Close])
           | Fails e \<Rightarrow>
               (case after_failure w attempt e (tr @ [Commit, Close]) of
                  (e1, tr1) \<Rightarrow> (Some e1, tr1)))
      | Fails e \<Rightarrow>
          (case exit_raising w attempt e (tr @ [Commit]) of (e1, tr1) \<Rightarrow> (Some e1, tr1)))"

text \<open>\<open>with DatabaseManager.get_connection() as conn: body\<close>.\<close>

definition with_connection ::
  "'v world \<Rightarrow> (trace \<Rightarrow> (exc + 'a) \<times> trace) \<Rightarrow> trace \<Rightarrow> (exc + 'a) \<times> trace" where
  "with_connection w body tr =
     (case connect_loop w 0 False tr of
        (Inl e, tr1) \<Rightarrow> (Inl e, tr1)
      | (Inr attempt, tr1) \<Rightarrow>
          (case body tr1 of
             (Inr x, tr2) \<Rightarrow>
               (case exit_normal w attempt tr2 of
                  (None, tr3) \<Rightarrow> (Inr x, tr3)
                | (Some e, tr3) \<Rightarrow> (Inl e, tr3))
           | (Inl e, tr2) \<Rightarrow>
               (case exit_raising w attempt e tr2 of (e1, tr3) \<Rightarrow> (Inl e1, tr3))))"

text \<open>\<open>with conn.cursor() as cursor: body\<close>.\<close>

definition with_cursor ::
  "'v world \<Rightarrow> (trace \<Rightarrow> (exc + 'a) \<times> trace) \<Rightarrow> trace \<Rightarrow> (exc + 'a) \<times> trace" where
  "with_cursor w body tr =
     (case on_cursor w of
        Fails e \<Rightarrow> (Inl e, tr @ [Cursor])
      | Ok \<Rightarrow>
          (case body (tr @ [Cursor]) of
             (Inr x, tr1) \<Rightarrow>
               (case on_cursor_exit w of
                  Ok \<Rightarrow> (Inr x, tr1 @ [CursorExit])
                | Fails e \<Rightarrow> (Inl e, tr1 @ [CursorExit]))
           | (Inl e, tr1) \<Rightarrow> (Inl e, tr1 @ [CursorExit])))"

section \<open>QueryExecutor\<close>

text \<open>
  \<open>DatabaseManager.execute_query\<close>. The result of the source is the pair of the rows
  (each a dictionary from column name to value) and the optional error message.
  \<open>run_statement\<close> is the inner \<open>try\<close>: its handler catches \<open>pyodbc.Error\<close> only
  and keeps the first line of \<open>str(e)\<close>.
\<close>

type_synonym 'v query_result = "(string \<times> 'v) list list \<times> string option"

definition sql_error :: "exc \<Rightarrow> exc + 'v query_result" where
  "sql_error e =
     (case e of
        PyodbcError m \<Rightarrow> Inr ([], Some (''SQL error: '' @ hd (str_split newline m)))
      | _ \<Rightarrow> Inl e)"

definition run_statement ::
  "'v world \<Rightarrow> string \<Rightarrow> trace \<Rightarrow> (exc + 'v query_result) \<times> trace" where
  "run_statement w query tr =
     (let outcome =
            (case on_execute w query of
               ExecFails e \<Rightarrow> sql_error e
             | Executed description fetch \<Rightarrow>
                 (case description of
                    None \<Rightarrow> Inr ([], Some ''No results returned'')
                  | Some cols \<Rightarrow>
                      if cols = [] then Inr ([], Some ''No results returned'')
                      else (case fetch of
                              FetchFails e \<Rightarrow> sql_error e
                            | Fetched rows \<Rightarrow>
                                Inr (map (\<lambda>row. py_dict (zip cols row)) rows, None))))
      in (outcome, tr @ [Execute query]))"

text \<open>The outer \<open>try\<close> with its \<open>except Exception\<close>: the value is always \<open>Inr\<close>, a
  normal return.\<close>

definition execute_query :: "'v world \<Rightarrow> string \<Rightarrow> (exc + 'v query_result) \<times> trace" where
  "execute_query w query =
     (case (if \<not> startswith (lower (strip query)) ''select''
            then (Inr ([], Some ''Only SELECT queries are allowed''), [])
            else if \<not> is_query_safe query
            then (Inr ([], Some ''Query contains potentially unsafe operations''), [])
            else with_connection w (with_cursor w (run_statement w query)) []) of
        (Inr result, tr) \<Rightarrow> (Inr result, tr)
      | (Inl e, tr) \<Rightarrow> (Inr ([], Some ''Unexpected database error''), tr))"

section \<open>SchemaCache\<close>

text \<open>
  \<open>DatabaseManager.get_schema_info\<close>. The schema is the dictionary the source builds:
  the tables in insertion order, each with its columns and its (always empty) list of
  primary keys, and the relationships. The cache file is absent (\<open>None\<close>), holds the
  JSON document of a schema, or holds something \<open>json.load\<close> rejects; \<open>json.dump\<close> and
  \<open>json.load\<close> are the library's serializer and parser, inverse to each other on
  dictionaries, lists, strings and booleans, so the file is modelled by the document it
  holds. \<open>write_reply\<close> is the outcome of writing the file: written, \<open>open\<close> failed
  (the file is untouched), or \<open>json.dump\<close> failed after \<open>open\<close> truncated the file.
\<close>

record column_info =
  col_name :: string
  col_type :: string
  col_nullable :: bool

record table_info =
  columns :: "column_info list"
  primary_keys :: "string list"

record relationship =
  from_table :: string
  from_column :: string
  to_table :: string
  to_column :: string

record schema_info =
  tables :: "(string \<times> table_info) list"
  relationships :: "relationship list"

datatype cache_file = Document schema_info | Garbage

datatype write_reply = Written | OpenFails | DumpFails

definition schema_query :: string where
  "schema_query = ''
        SELECT 
            t.TABLE_SCHEMA,
            t.TABLE_NAME,
            c.COLUMN_NAME,
            c.DATA_TYPE,
            c.IS_NULLABLE
        FROM INFORMATION_SCHEMA.TABLES t
        JOIN INFORMATION_SCHEMA.COLUMNS c 
            ON t.TABLE_NAME = c.TABLE_NAME AND t.TABLE_SCHEMA = c.TABLE_SCHEMA
        WHERE t.TABLE_TYPE = 'BASE TABLE'
        ORDER BY t.TABLE_NAME, c.ORDINAL_POSITION;
        ''"

definition fk_query :: string where
  "fk_query = ''
        SELECT
            KCU1.TABLE_NAME AS FK_TABLE,
            KCU1.COLUMN_NAME AS FK_COLUMN,
            KCU2.TABLE_NAME AS REFERENCED_TABLE,
            KCU2.COLUMN_NAME AS REFERENCED_COLUMN
        FROM INFORMATION_SCHEMA.REFERENTIAL_CONSTRAINTS RC
        JOIN INFORMATION_SCHEMA.KEY_COLUMN_USAGE KCU1
            ON KCU1.CONSTRAINT_NAME = RC.CONSTRAINT_NAME
        JOIN INFORMATION_SCHEMA.KEY_COLUMN_USAGE KCU2
            ON KCU2.CONSTRAINT_NAME = RC.UNIQUE_CONSTRAINT_NAME
        ''"

text \<open>\<open>cursor.execute(query)\<close> followed by the list comprehension over
  \<open>cursor.fetchall()\<close>, which reads \<open>cursor.description\<close> once per row.\<close>

definition fetch_dicts :: "'v world \<Rightarrow> string \<Rightarrow> exc + (string \<times> 'v) list list" where
  "fetch_dicts w query =
     (case on_execute w query of
        ExecFails e \<Rightarrow> Inl e
      | Executed description fetch \<Rightarrow>
          (case fetch of
             FetchFails e \<Rightarrow> Inl e
           | Fetched rows \<Rightarrow>
               if rows = [] then Inr []
               else (case description of
                       None \<Rightarrow> Inl OtherException
                     | Some cols \<Rightarrow> Inr (map (\<lambda>row. py_dict (zip cols row)) rows))))"

definition introspect ::
  "string world \<Rightarrow> trace \<Rightarrow>
     (exc + (string \<times> string) list list \<times> (string \<times> string) list list) \<times> trace" where
  "introspect w tr =
     (case fetch_dicts w schema_query of
        Inl e \<Rightarrow> (Inl e, tr @ [Execute schema_query])
      | Inr schema_data \<Rightarrow>
          (case fetch_dicts w fk_query of
             Inl e \<Rightarrow> (Inl e, tr @ [Execute schema_query, Execute fk_query])
           | Inr fk_data \<Rightarrow>
               (Inr (schema_data, fk_data), tr @ [Execute schema_query, Execute fk_query])))"

text \<open>The loop over \<open>schema_data\<close>: a first-seen table key gets an entry with no
  columns, then the column is appended to the entry of its table.\<close>

definition add_column ::
  "(string \<times> table_info) list \<Rightarrow> (string \<times> string) list \<Rightarrow>
     exc + (string \<times> table_info) list" where
  "add_column tbls row =
     and_then (getitem row ''TABLE_SCHEMA'') (\<lambda>table_schema.
     and_then (getitem row ''TABLE_NAME'') (\<lambda>table_name.
       let table_key = table_schema @ ''.'' @ table_name;
           tbls1 = (if map_of tbls table_key = None
                    then AList.update table_key \<lparr>columns = [], primary_keys = []\<rparr> tbls
                    else tbls)
       in and_then (getitem row ''COLUMN_NAME'') (\<lambda>column_name.
          and_then (getitem row ''DATA_TYPE'') (\<lambda>data_type.
          and_then (getitem row ''IS_NULLABLE'') (\<lambda>is_nullable.
            Inr (AList.map_entry table_key
                   (\<lambda>info. info\<lparr>columns := columns info
                       @ [\<lparr>col_name = column_name, col_type = data_type,
                            col_nullable = (is_nullable = ''YES'')\<rparr>]\<rparr>)
                   tbls1))))))"

fun add_columns ::
  "(string \<times> table_info) list \<Rightarrow> (string \<times> string) list list \<Rightarrow>
     exc + (string \<times> table_info) list" where
  "add_columns tbls [] = Inr tbls"
| "add_columns tbls (row # rows) =
     and_then (add_column tbls row) (\<lambda>tbls1. add_columns tbls1 rows)"

text \<open>The loop over \<open>fk_data\<close>.\<close>

definition add_relationship :: "(string \<times> string) list \<Rightarrow> exc + relationship" where
  "add_relationship row =
     and_then (getitem row ''FK_TABLE'') (\<lambda>fk_table.
     and_then (getitem row ''FK_COLUMN'') (\<lambda>fk_column.
     and_then (getitem row ''REFERENCED_TABLE'') (\<lambda>referenced_table.
     and_then (getitem row ''REFERENCED_COLUMN'') (\<lambda>referenced_column.
       Inr \<lparr>from_table = fk_table, from_column = fk_column,
            to_table = referenced_table, to_column = referenced_column\<rparr>))))"

fun add_relationships ::
  "relationship list \<Rightarrow> (string \<times> string) list list \<Rightarrow> exc + relationship list" where
  "add_relationships rels [] = Inr rels"
| "add_relationships rels (row # rows) =
     and_then (add_relationship row) (\<lambda>rel. add_relationships (rels @ [rel]) rows)"

definition organize ::
  "(string \<times> string) list list \<Rightarrow> (string \<times> string) list list \<Rightarrow> exc + schema_info" where
  "organize schema_data fk_data =
     and_then (add_columns [] schema_data) (\<lambda>tbls.
     and_then (add_relationships [] fk_data) (\<lambda>rels.
       Inr \<lparr>tables = tbls, relationships = rels\<rparr>))"

text \<open>The function returns its value or raises, together with the driver calls it
  issued and the cache file it leaves behind.\<close>

definition get_schema_info ::
  "bool \<Rightarrow> string world \<Rightarrow> write_reply \<Rightarrow> cache_file option \<Rightarrow>
     (exc + schema_info) \<times> trace \<times> cache_file option" where
  "get_schema_info force_refresh w wr cache =
     (if \<not> force_refresh \<and> cache \<noteq> None
      then (case cache of
              Some (Document schema) \<Rightarrow> (Inr schema, [], cache)
            | _ \<Rightarrow> (Inl ValueError, [], cache))
      else (case with_connection w (with_cursor w (introspect w)) [] of
              (Inl e, tr) \<Rightarrow> (Inl e, tr, cache)
            | (Inr (schema_data, fk_data), tr) \<Rightarrow>
                (case organize schema_data fk_data of
                   Inl e \<Rightarrow> (Inl e, tr, cache)
                 | Inr schema \<Rightarrow>
                     (case wr of
                        Written \<Rightarrow> (Inr schema, tr, Some (Document schema))
                      | OpenFails \<Rightarrow> (Inl OtherException, tr, cache)
                      | DumpFails \<Rightarrow> (Inl OtherException, tr, Some Garbage)))))"

section \<open>RateLimiter\<close>

text \<open>
  \<open>RateLimiter.user_requests\<close> is a dict from user id to the list of timestamps of the
  accepted requests. \<open>time.time()\<close> is read once per call and passed in as \<open>now\<close>;
  timestamps are modelled as real numbers of seconds. The lock serialises the calls, so a
  call is one atomic step on the dict.

  On the denial path the source awaits \<open>update.message.reply_text\<close> before returning
  \<open>False\<close>; that network call may raise, which is the parameter \<open>reply_ok\<close>. The dict
  has been updated with the purged window before the reply is sent.
\<close>

type_synonym user_id = int
type_synonym rate_state = "user_id \<rightharpoonup> real list"

definition check_rate_limit ::
  "user_id \<Rightarrow> real \<Rightarrow> bool \<Rightarrow> rate_state \<Rightarrow> (exc + bool) \<times> rate_state" where
  "check_rate_limit user_id now reply_ok user_requests =
     (let reqs1 = (if user_requests user_id = None
                   then user_requests(user_id \<mapsto> []) else user_requests);
          window = filter (\<lambda>t. now - t < 60)
                     (case reqs1 user_id of None \<Rightarrow> [] | Some ts \<Rightarrow> ts);
          reqs2 = reqs1(user_id \<mapsto> window)
      in if length window \<ge> MAX_REQUESTS_PER_MINUTE
         then (if reply_ok then Inr False else Inl OtherException, reqs2)
         else (Inr True, reqs2(user_id \<mapsto> window @ [now])))"

text \<open>A request as the limiter sees it: who calls, when, and whether a denial notice
  could be delivered.\<close>

record call =
  caller :: user_id
  at_time :: real
  reply_ok :: bool

text \<open>A sequence of calls, run one after the other on the shared dict; the outcomes are
  collected in order.\<close>

fun run_calls :: "call list \<Rightarrow> rate_state \<Rightarrow> (exc + bool) list \<times> rate_state" where
  "run_calls [] st = ([], st)"
| "run_calls (c # cs) st =
     (let (r, st1) = check_rate_limit (caller c) (at_time c) (reply_ok c) st;
          (rs, st2) = run_calls cs st1
      in (r # rs, st2))"

text \<open>The recorded window of a caller; a caller the dict has never seen has none.\<close>

definition window_of :: "rate_state \<Rightarrow> user_id \<Rightarrow> real list" where
  "window_of st u = (case st u of None \<Rightarrow> [] | Some ts \<Rightarrow> ts)"

text \<open>\<open>RateLimiter.__init__\<close>: the dict starts empty.\<close>

definition rate_limiter_init :: rate_state where
  "rate_limiter_init = Map.empty"

text \<open>The consecutive requests of one caller at the given times.\<close>

definition requests :: "user_id \<Rightarrow> real list \<Rightarrow> call list" where
  "requests u ts = map (\<lambda>t. \<lparr>caller = u, at_time = t, reply_ok = True\<rparr>) ts"

section \<open>Example environments\<close>

text \<open>A database that accepts the first connection and answers every statement with one
  row of one column.\<close>

definition answering :: "nat world" where
  "answering =
     \<lparr> env_set = True, on_connect = (\<lambda>n. Ok), on_cursor = Ok,
       on_execute = (\<lambda>q. Executed (Some [''n'']) (Fetched [ [1] ])),
       on_cursor_exit = Ok, on_commit = Ok, on_rollback = Ok, on_close = Ok \<rparr>"

text \<open>The same database, rejecting every statement with a two-line diagnostic.\<close>

definition rejecting :: "nat world" where
  "rejecting =
     answering \<lparr> on_execute :=
       (\<lambda>q. ExecFails (PyodbcError (''Invalid column name'' @ [newline] @ ''near line 1''))) \<rparr>"

text \<open>A database with two tables and one foreign key, and no database at all.\<close>

definition northwind :: "string world" where
  "northwind =
     \<lparr> env_set = True, on_connect = (\<lambda>n. Ok), on_cursor = Ok,
       on_execute = (\<lambda>q.
         if q = schema_query
         then Executed
                (Some [''TABLE_SCHEMA'', ''TABLE_NAME'', ''COLUMN_NAME'', ''DATA_TYPE'',
                       ''IS_NULLABLE''])
                (Fetched [ [''dbo'', ''Customers'', ''CustomerID'', ''nchar'', ''NO''],
                           [''dbo'', ''Customers'', ''Phone'', ''nvarchar'', ''YES''],
                           [''dbo'', ''Orders'', ''CustomerID'', ''nchar'', ''YES''] ])
         else if q = fk_query
         then Executed
                (Some [''FK_TABLE'', ''FK_COLUMN'', ''REFERENCED_TABLE'', ''REFERENCED_COLUMN''])
                (Fetched [ [''Orders'', ''CustomerID'', ''Customers'', ''CustomerID''] ])
         else ExecFails (PyodbcError ''unknown statement'')),
       on_cursor_exit = Ok, on_commit = Ok, on_rollback = Ok, on_close = Ok \<rparr>"

definition northwind_schema :: schema_info where
  "northwind_schema =
     \<lparr> tables =
         [ (''dbo.Customers'',
            \<lparr> columns =
                [ \<lparr>col_name = ''CustomerID'', col_type = ''nchar'', col_nullable = False\<rparr>,
                  \<lparr>col_name = ''Phone'', col_type = ''nvarchar'', col_nullable = True\<rparr> ],
              primary_keys = [] \<rparr>),
           (''dbo.Orders'',
            \<lparr> columns =
                [ \<lparr>col_name = ''CustomerID'', col_type = ''nchar'', col_nullable = True\<rparr> ],
              primary_keys = [] \<rparr>) ],
       relationships =
         [ \<lparr>from_table = ''Orders'', from_column = ''CustomerID'',
            to_table = ''Customers'', to_column = ''CustomerID''\<rparr> ] \<rparr>"

definition offline :: "string world" where
  "offline =
     \<lparr> env_set = False, on_connect = (\<lambda>n. Fails (PyodbcError ''unreachable'')),
       on_cursor = Fails OtherException,
       on_execute = (\<lambda>q. ExecFails (PyodbcError ''unreachable'')),
       on_cursor_exit = Fails OtherException, on_commit = Fails OtherException,
       on_rollback = Fails OtherException, on_close = Fails OtherException \<rparr>"

section \<open>Strings: basic facts\<close>

lemma str_split_not_Nil: "str_split sep s \<noteq> []"
  by (induction s) (auto split: list.splits)

lemma hd_str_split: "hd (str_split sep s) = takeWhile (\<lambda>c. c \<noteq> sep) s"
  by (induction s) (auto simp: str_split_not_Nil split: list.splits)

section \<open>Database connections: basic facts\<close>

text \<open>A value that comes out of a \<open>with\<close> block is the value its body returned.\<close>

lemma with_cursor_Inr:
  assumes "with_cursor w body tr = (Inr x, tr')"
  shows "\<exists>tr1. body (tr @ [Cursor]) = (Inr x, tr1)"
  using assms
  by (auto simp: with_cursor_def split: reply.splits prod.splits sum.splits)

lemma with_connection_Inr:
  assumes "with_connection w body tr = (Inr x, tr')"
  shows "\<exists>tr0 tr1. body tr0 = (Inr x, tr1)"
  using assms
  by (auto simp: with_connection_def split: prod.splits sum.splits option.splits)

lemma connect_loop_first_ok:
  "env_set w \<Longrightarrow> on_connect w 0 = Ok \<Longrightarrow> connect_loop w 0 False tr = (Inr 0, tr @ [Connect])"
  by (simp add: MAX_SQL_ATTEMPTS_def)

lemma sql_error_shape:
  "sql_error e = Inr r \<Longrightarrow> \<exists>msg. r = ([], Some msg)"
  by (auto simp: sql_error_def split: exc.splits)

lemma run_statement_shape:
  assumes "run_statement w query tr = (Inr r, tr')"
  shows "(\<exists>rows. r = (rows, None)) \<or> (\<exists>msg. r = ([], Some msg))"
  using assms
  by (auto simp: run_statement_def Let_def dest: sql_error_shape
      split: exec_reply.splits option.splits if_splits fetch_reply.splits)

lemma run_statement_driver_error:
  assumes "on_execute w query = ExecFails (PyodbcError m)
         \<or> (\<exists>cols. cols \<noteq> []
               \<and> on_execute w query = Executed (Some cols) (FetchFails (PyodbcError m)))"
  shows "run_statement w query tr =
           (Inr ([], Some (''SQL error: '' @ takeWhile (\<lambda>c. c \<noteq> newline) m)),
            tr @ [Execute query])"
  using assms by (auto simp: run_statement_def sql_error_def hd_str_split)

section \<open>SafetyGate: what is rejected, and a line comment that passes\<close>

text \<open>A statement with a slash or a backslash anywhere is rejected, by the last
  pattern.\<close>

lemma search_from_Chr: "search_from [Chr f] prev s = (\<exists>c \<in> set s. f c)"
  by (induction s arbitrary: prev) (auto split: list.splits)

lemma lower_keeps_slashes:
  "lower_char (CHR ''/'') = CHR ''/''" "lower_char backslash = backslash"
  by (simp_all add: lower_char_def backslash_def)

lemma slash_is_rejected:
  assumes "CHR ''/'' \<in> set query \<or> backslash \<in> set query"
  shows "\<not> is_query_safe query"
proof -
  from assms obtain c where c: "c \<in> set query" "slash_class c" "lower_char c = c"
    by (auto simp: slash_class_def lower_keeps_slashes)
  then have "c \<in> set (lower query)"
    by (force simp: lower_def)
  with c have "re_search [Chr slash_class] (lower query)"
    by (auto simp: re_search_def search_from_Chr)
  then show ?thesis
    by (simp add: is_query_safe_def dangerous_patterns_def Let_def)
qed

text \<open>
  Claim C1. The safety gate is claimed to return false for every statement that contains a
  line comment. The two-line statement below has a line comment on its first line, and
  \<open>is_query_safe\<close> returns true for it: the sixth pattern is searched without the
  MULTILINE flag, so its dollar anchor matches only at the end of the whole text, and
  the dot of the pattern does not cross the newline.
\<close>

theorem line_comment_passes_safety_gate:
  "contains (''select 1 -- x'' @ [newline] @ ''from t'') ''--''
   \<and> is_query_safe (''select 1 -- x'' @ [newline] @ ''from t'')"
  by code_simp

section \<open>SqlSynthesizer: a statement returned without its row limit\<close>

text \<open>
  Claim C2. \<open>generate_sql\<close> is claimed to return only statements that contain the
  row-limiting clause \<open>top 50\<close>. When the model answers \<open>select* from t\<close>, with no
  white space after the keyword, the statement passes every validation check, neither
  injection of the clause finds \<^verbatim>\<open>select\s+\<close>, and the statement is returned as
  it is, without any \<open>top\<close> clause.
\<close>

theorem generate_sql_without_top:
  "generate_sql (\<lambda>attempt. Inr ''select* from t'') = Some ''select* from t''
   \<and> \<not> contains (lower ''select* from t'') ''top 50''"
  by code_simp

section \<open>QueryExecutor: rejected statements never reach the database\<close>

text \<open>
  Claim C3, as stated: a statement that does not start with \<open>select\<close> (in any case) is
  rejected without contacting the database. The source strips the statement before it
  looks at its start, so a statement with leading white space does not start with
  \<open>select\<close> and is executed all the same.
\<close>

theorem leading_space_select_is_executed:
  "\<not> startswith (lower '' select 1'') ''select''
   \<and> execute_query answering '' select 1''
       = (Inr ([ [(''n'', 1)] ], None),
          [Connect, Cursor, Execute '' select 1'', CursorExit, Commit, Close])"
  by code_simp

text \<open>
  Claim C3, amended: a statement that, once stripped of surrounding white space, does not
  start with \<open>select\<close> (in any case), or that the safety gate rejects, makes
  \<open>execute_query\<close> return no rows and one of its two descriptive error messages, and
  the trace of driver calls is empty: no connection is opened and nothing is executed,
  whatever the database would have answered.
\<close>

theorem execute_rejects_without_database:
  assumes "\<not> startswith (lower (strip query)) ''select'' \<or> \<not> is_query_safe query"
  shows "execute_query w query = (Inr ([], Some ''Only SELECT queries are allowed''), [])
       \<or> execute_query w query =
            (Inr ([], Some ''Query contains potentially unsafe operations''), [])"
  using assms by (auto simp: execute_query_def)

theorem execute_rejects_without_database_witness:
  "\<not> startswith (lower (strip ''drop table t'')) ''select''
   \<and> execute_query answering ''drop table t''
       = (Inr ([], Some ''Only SELECT queries are allowed''), [])"
proof -
  have not_select: "\<not> startswith (lower (strip ''drop table t'')) ''select''"
    by code_simp
  then have hyp: "\<not> startswith (lower (strip ''drop table t'')) ''select''
                  \<or> \<not> is_query_safe ''drop table t''"
    by (rule disjI1)
  have "execute_query answering ''drop table t''
          \<noteq> (Inr ([], Some ''Query contains potentially unsafe operations''), [])"
    by code_simp
  with execute_rejects_without_database [OF hyp, of answering] not_select
  show ?thesis by blast
qed

section \<open>RateLimiter: the sliding window\<close>

lemma window_of_check_other:
  "u \<noteq> v \<Longrightarrow> window_of (snd (check_rate_limit v now r st)) u = window_of st u"
  by (simp add: check_rate_limit_def window_of_def Let_def)

lemma window_of_check_same:
  "window_of (snd (check_rate_limit u now r st)) u =
     (let w = filter (\<lambda>t. now - t < 60) (window_of st u)
      in if length w \<ge> MAX_REQUESTS_PER_MINUTE then w else w @ [now])"
  by (simp add: check_rate_limit_def window_of_def Let_def split: option.splits)

lemma fst_check:
  "fst (check_rate_limit u now r st) =
     (let w = filter (\<lambda>t. now - t < 60) (window_of st u)
      in if length w \<ge> MAX_REQUESTS_PER_MINUTE
         then (if r then Inr False else Inl OtherException) else Inr True)"
  by (simp add: check_rate_limit_def window_of_def Let_def split: option.splits)

lemma run_calls_append:
  "run_calls (xs @ ys) st =
     (fst (run_calls xs st) @ fst (run_calls ys (snd (run_calls xs st))),
      snd (run_calls ys (snd (run_calls xs st))))"
  by (induction xs arbitrary: st) (simp_all add: case_prod_unfold Let_def)

lemma length_fst_run_calls: "length (fst (run_calls cs st)) = length cs"
  by (induction cs arbitrary: st) (simp_all add: case_prod_unfold Let_def)

lemma accepted_window:
  assumes "fst (check_rate_limit u now r st) = Inr True"
  shows "window_of (snd (check_rate_limit u now r st)) u =
           filter (\<lambda>t. now - t < 60) (window_of st u) @ [now]"
    and "length (filter (\<lambda>t. now - t < 60) (window_of st u)) < MAX_REQUESTS_PER_MINUTE"
  using assms
  by (auto simp: fst_check window_of_check_same Let_def split: if_splits)

lemma accepted_run_suffix:
  assumes "\<forall>c \<in> set cs. caller c = u \<and> at_time c \<le> T \<and> T - at_time c < 60"
    and "sorted (map at_time cs)"
    and "\<forall>r \<in> set (fst (run_calls cs st)). r = Inr True"
  shows "\<exists>old. window_of (snd (run_calls cs st)) u = old @ map at_time cs"
  using assms
proof (induction cs rule: rev_induct)
  case Nil
  then show ?case by simp
next
  case (snoc c cs)
  let ?st1 = "snd (run_calls cs st)"
  from snoc.prems have pre: "\<forall>c \<in> set cs. caller c = u \<and> at_time c \<le> T \<and> T - at_time c < 60"
    and srt: "sorted (map at_time cs)"
    and acc: "\<forall>r \<in> set (fst (run_calls cs st)). r = Inr True"
    by (auto simp: run_calls_append sorted_append)
  from snoc.IH [OF pre srt acc] obtain old
    where old: "window_of ?st1 u = old @ map at_time cs" by blast
  from snoc.prems have cu: "caller c = u" and cT: "at_time c \<le> T" by auto
  from snoc.prems(3) have last_ok:
    "fst (check_rate_limit u (at_time c) (reply_ok c) ?st1) = Inr True"
    by (simp add: run_calls_append cu case_prod_unfold Let_def)
  have keep: "filter (\<lambda>t. at_time c - t < 60) (map at_time cs) = map at_time cs"
  proof (rule filter_True, clarsimp)
    fix d assume "d \<in> set cs"
    with pre have "T - at_time d < 60" by blast
    with cT show "at_time c - at_time d < 60" by simp
  qed
  have "window_of (snd (run_calls (cs @ [c]) st)) u =
          filter (\<lambda>t. at_time c - t < 60) (window_of ?st1 u) @ [at_time c]"
    using accepted_window(1) [OF last_ok]
    by (simp add: run_calls_append cu case_prod_unfold Let_def)
  also have "\<dots> = filter (\<lambda>t. at_time c - t < 60) old @ map at_time (cs @ [c])"
    by (simp add: old keep)
  finally show ?case by blast
qed


lemma accepted_run_window:
  assumes each: "\<forall>c \<in> set cs. caller c = u \<and> at_time c \<le> T \<and> T - at_time c < 60"
    and srt: "sorted (map at_time cs)"
    and acc: "\<forall>r \<in> set (fst (run_calls cs st)). r = Inr True"
    and len: "length cs = MAX_REQUESTS_PER_MINUTE"
  shows "window_of (snd (run_calls cs st)) u = map at_time cs"
proof -
  from len have "cs \<noteq> []" by (auto simp: MAX_REQUESTS_PER_MINUTE_def)
  then obtain bs c where cs: "cs = bs @ [c]" by (metis rev_exhaust)
  let ?st1 = "snd (run_calls bs st)"
  from each cs have cu: "caller c = u" by simp
  from acc have last_ok:
    "fst (check_rate_limit u (at_time c) (reply_ok c) ?st1) = Inr True"
    by (simp add: cs run_calls_append cu case_prod_unfold Let_def)
  have "window_of (snd (run_calls cs st)) u =
          filter (\<lambda>t. at_time c - t < 60) (window_of ?st1 u) @ [at_time c]"
    using accepted_window(1) [OF last_ok]
    by (simp add: cs run_calls_append cu case_prod_unfold Let_def)
  with accepted_window(2) [OF last_ok]
  have bound: "length (window_of (snd (run_calls cs st)) u) \<le> MAX_REQUESTS_PER_MINUTE"
    by simp
  from accepted_run_suffix [OF each srt acc] obtain old
    where old: "window_of (snd (run_calls cs st)) u = old @ map at_time cs" by blast
  with bound len have "old = []" by simp
  with old show ?thesis by simp
qed

text \<open>
  Claim C4. Take any caller \<open>u\<close> and any state of the limiter, and ten consecutive
  requests of \<open>u\<close> at non-decreasing times \<open>ts\<close> that were all accepted. An eleventh
  request at a time \<open>t11\<close> inside the same 60-second window (\<open>t11 - hd ts < 60\<close>) is
  denied (it returns \<open>False\<close>, or raises when the denial notice cannot be sent) and is
  not recorded: the window of \<open>u\<close> is still exactly \<open>ts\<close>. Once 60 seconds have elapsed
  since the first of the ten (\<open>60 \<le> t - hd ts\<close>), the next request of \<open>u\<close> is accepted,
  whether or not a denied request came in between.
  A caller the limiter has not seen starts with an empty window: the request is accepted
  and the window holds that request alone. Requests of other callers in between leave the
  window of \<open>u\<close> as it is (\<open>window_of_check_other\<close>).
\<close>

theorem sliding_window_limit:
  assumes len: "length ts = 10"
    and srt: "sorted (ts @ [t11])"
    and inside: "t11 - hd ts < 60"
    and acc: "fst (run_calls (requests u ts) st) = replicate 10 (Inr True)"
  shows "fst (check_rate_limit u t11 r (snd (run_calls (requests u ts) st))) =
           (if r then Inr False else Inl OtherException)
       \<and> window_of (snd (check_rate_limit u t11 r (snd (run_calls (requests u ts) st)))) u = ts
       \<and> (\<forall>t r'. t11 \<le> t \<and> 60 \<le> t - hd ts \<longrightarrow>
            fst (check_rate_limit u t r'
                  (snd (check_rate_limit u t11 r (snd (run_calls (requests u ts) st)))))
              = Inr True)
       \<and> (\<forall>t r'. 60 \<le> t - hd ts \<longrightarrow>
            fst (check_rate_limit u t r' (snd (run_calls (requests u ts) st))) = Inr True)
       \<and> (\<forall>st' now. st' u = None \<longrightarrow>
            check_rate_limit u now r st' = (Inr True, st'(u \<mapsto> [now])))"
proof -
  let ?st1 = "snd (run_calls (requests u ts) st)"
  let ?st2 = "snd (check_rate_limit u t11 r ?st1)"
  from len have ne: "ts \<noteq> []" by auto
  have hd_le: "hd ts \<le> x" if "x \<in> set ts" for x
    using srt that ne by (cases ts) (auto simp: sorted_append)
  have le11: "x \<le> t11" if "x \<in> set ts" for x
    using srt that by (auto simp: sorted_append)
  have each: "\<forall>c \<in> set (requests u ts).
                caller c = u \<and> at_time c \<le> t11 \<and> t11 - at_time c < 60"
    using hd_le le11 inside by (fastforce simp: requests_def)
  have times: "map at_time (requests u ts) = ts"
    by (simp add: requests_def comp_def)
  have srt': "sorted (map at_time (requests u ts))"
    using srt by (simp add: times sorted_append)
  have acc': "\<forall>x \<in> set (fst (run_calls (requests u ts) st)). x = Inr True"
    by (simp add: acc)
  have len': "length (requests u ts) = MAX_REQUESTS_PER_MINUTE"
    by (simp add: requests_def len MAX_REQUESTS_PER_MINUTE_def)
  have w1: "window_of ?st1 u = ts"
    using accepted_run_window [OF each srt' acc' len'] by (simp add: times)
  have keep: "filter (\<lambda>x. t11 - x < 60) ts = ts"
    using each by (intro filter_True) (auto simp: requests_def)
  have denied: "fst (check_rate_limit u t11 r ?st1) = (if r then Inr False else Inl OtherException)"
    by (simp add: fst_check w1 keep len MAX_REQUESTS_PER_MINUTE_def)
  have w2: "window_of ?st2 u = ts"
    by (simp add: window_of_check_same w1 keep len MAX_REQUESTS_PER_MINUTE_def)
  have short: "length (filter (\<lambda>y. t - y < 60) ts) < 10" if "60 \<le> t - hd ts" for t
  proof -
    obtain x xs where ts: "ts = x # xs" using ne by (cases ts) auto
    from that ts have eq: "filter (\<lambda>y. t - y < 60) ts = filter (\<lambda>y. t - y < 60) xs"
      by simp
    have "length (filter (\<lambda>y. t - y < 60) xs) \<le> length xs"
      by (rule length_filter_le)
    also have "length xs < 10"
      using len ts by simp
    finally show ?thesis
      by (simp only: eq)
  qed
  have direct: "fst (check_rate_limit u t r' ?st1) = Inr True" if "60 \<le> t - hd ts" for t r'
    using short [OF that] by (simp add: fst_check w1 MAX_REQUESTS_PER_MINUTE_def)
  have again: "fst (check_rate_limit u t r' ?st2) = Inr True"
    if "t11 \<le> t" "60 \<le> t - hd ts" for t r'
  proof -
    obtain x xs where ts: "ts = x # xs" using ne by (cases ts) auto
    from that ts have eq: "filter (\<lambda>y. t - y < 60) ts = filter (\<lambda>y. t - y < 60) xs"
      by simp
    have "length (filter (\<lambda>y. t - y < 60) xs) \<le> length xs"
      by (rule length_filter_le)
    also have "length xs < 10"
      using len ts by simp
    finally have "length (filter (\<lambda>y. t - y < 60) ts) < 10"
      by (simp only: eq)
    then show ?thesis
      by (simp add: fst_check w2 MAX_REQUESTS_PER_MINUTE_def)
  qed
  have fresh: "check_rate_limit u now r st' = (Inr True, st'(u \<mapsto> [now]))"
    if "st' u = None" for st' now
    using that by (simp add: check_rate_limit_def MAX_REQUESTS_PER_MINUTE_def)
  from denied w2 again direct fresh show ?thesis by blast
qed

theorem sliding_window_limit_witness:
  "length [0,5,10,15,20,25,30,35,40,45::real] = 10 \<and>
   sorted ([0,5,10,15,20,25,30,35,40,45::real] @ [59]) \<and>
   (59::real) - hd [0,5,10,15,20,25,30,35,40,45] < 60 \<and>
   fst (run_calls (requests 7 [0,5,10,15,20,25,30,35,40,45]) rate_limiter_init)
     = replicate 10 (Inr True) \<and>
   fst (check_rate_limit 7 59 True
         (snd (run_calls (requests 7 [0,5,10,15,20,25,30,35,40,45]) rate_limiter_init)))
     = Inr False \<and>
   window_of (snd (check_rate_limit 7 59 True
         (snd (run_calls (requests 7 [0,5,10,15,20,25,30,35,40,45]) rate_limiter_init)))) 7
     = [0,5,10,15,20,25,30,35,40,45] \<and>
   fst (check_rate_limit 7 60 True (snd (check_rate_limit 7 59 True
         (snd (run_calls (requests 7 [0,5,10,15,20,25,30,35,40,45]) rate_limiter_init)))))
     = Inr True \<and>
   rate_limiter_init 7 = None \<and>
   check_rate_limit 7 0 True rate_limiter_init = (Inr True, rate_limiter_init(7 \<mapsto> [0]))"
proof -
  have len: "length [0,5,10,15,20,25,30,35,40,45::real] = 10" by simp
  have srt: "sorted ([0,5,10,15,20,25,30,35,40,45::real] @ [59])" by simp
  have inside: "(59::real) - hd [0,5,10,15,20,25,30,35,40,45] < 60" by simp
  have acc: "fst (run_calls (requests 7 [0,5,10,15,20,25,30,35,40,45]) rate_limiter_init)
     = replicate 10 (Inr True)"
    by (simp add: requests_def rate_limiter_init_def check_rate_limit_def
        MAX_REQUESTS_PER_MINUTE_def Let_def numeral_eq_Suc)
  have fresh: "rate_limiter_init 7 = None" by (simp add: rate_limiter_init_def)
  have late: "(59::real) \<le> 60 \<and> (60::real) \<le> 60 - hd [0,5,10,15,20,25,30,35,40,45]"
    by simp
  from sliding_window_limit [OF len srt inside acc, of True] late fresh
  show ?thesis using len srt inside acc by (simp del: run_calls.simps)
qed

section \<open>ResponseFormatter: a sensitive field that is printed\<close>

text \<open>
  Claim C5. The value of a field whose name is on the sensitive-term list is claimed to be
  replaced as a whole. \<open>sanitize_data\<close> receives the value only and looks for the terms
  in the value, never in the name: a record with the field \<open>Phone\<close> and a Northwind phone
  number is printed with the number in full.
\<close>

theorem phone_field_not_redacted:
  "sanitize_data ''030-0074321'' = ''030-0074321''
   \<and> format_all_records [ [(''Phone'', Some ''030-0074321'')] ]
       = pushpin @ '' Record 1:'' @ [newline] @ bullet @ '' Phone: 030-0074321''"
  by code_simp

section \<open>QueryExecutor: the shape of the result\<close>

text \<open>
  Claim C6. For every statement and every behaviour of the database, \<open>execute_query\<close>
  returns normally (its value is \<open>Inr\<close>, never an exception), and the result is either
  rows with no error, or no rows with an error message.
\<close>

theorem execute_query_returns:
  "(\<exists>rows tr. execute_query w query = (Inr (rows, None), tr))
   \<or> (\<exists>msg tr. execute_query w query = (Inr ([], Some msg), tr))"
proof (cases "\<not> startswith (lower (strip query)) ''select'' \<or> \<not> is_query_safe query")
  case True
  then show ?thesis by (auto simp: execute_query_def)
next
  case False
  obtain r tr where run: "with_connection w (with_cursor w (run_statement w query)) [] = (r, tr)"
    by (cases "with_connection w (with_cursor w (run_statement w query)) []") auto
  show ?thesis
  proof (cases r)
    case (Inl e)
    with False run show ?thesis by (simp add: execute_query_def)
  next
    case (Inr res)
    from run Inr
    have "with_connection w (with_cursor w (run_statement w query)) [] = (Inr res, tr)"
      by simp
    from with_connection_Inr [OF this]
    obtain tr0 tr1 where "with_cursor w (run_statement w query) tr0 = (Inr res, tr1)"
      by blast
    from with_cursor_Inr [OF this]
    obtain tr2 where "run_statement w query (tr0 @ [Cursor]) = (Inr res, tr2)"
      by blast
    from run_statement_shape [OF this]
    have "(\<exists>rows. res = (rows, None)) \<or> (\<exists>msg. res = ([], Some msg))" .
    with False run Inr show ?thesis by (auto simp: execute_query_def)
  qed
qed

section \<open>SchemaCache: reading the same snapshot twice\<close>

text \<open>
  Claim C7. When a call of \<open>get_schema_info\<close> without forced refresh returns a schema,
  whether it read it from the cache file or built it from the database and wrote the
  file, a second call without forced refresh returns the same schema, whatever the
  database and the file system would answer by then: it issues no driver call and leaves
  the cache file as it is.
\<close>

theorem schema_cache_idempotent:
  assumes "get_schema_info False w wr cache = (Inr schema, tr, cache1)"
  shows "get_schema_info False w' wr' cache1 = (Inr schema, [], cache1)"
  using assms
  by (auto simp: get_schema_info_def
      split: if_splits option.splits cache_file.splits prod.splits sum.splits
        write_reply.splits)

theorem schema_cache_idempotent_witness:
  "get_schema_info False northwind Written None
     = (Inr northwind_schema,
        [Connect, Cursor, Execute schema_query, Execute fk_query, CursorExit, Commit, Close],
        Some (Document northwind_schema))
   \<and> get_schema_info False offline DumpFails (Some (Document northwind_schema))
     = (Inr northwind_schema, [], Some (Document northwind_schema))"
proof -
  have first: "get_schema_info False northwind Written None
     = (Inr northwind_schema,
        [Connect, Cursor, Execute schema_query, Execute fk_query, CursorExit, Commit, Close],
        Some (Document northwind_schema))"
    by code_simp
  from schema_cache_idempotent [OF first, of offline DumpFails] first
  show ?thesis by simp
qed

section \<open>SqlSynthesizer: what the cleaning removes, and a line comment it leaves\<close>

text \<open>The cleaned text has no semicolon, no slash and no backslash, hence no block
  comment either: every step after the deletion of the slashes only keeps characters or
  inserts spaces and the text \<open>select top 50\<close>.\<close>

lemma set_sub_from: "set (sub_from p repl skip prev s) \<subseteq> set s \<union> set repl"
  by (induction p repl skip prev s rule: sub_from.induct)
     (auto split: option.splits nat.splits if_splits)

lemma set_re_sub: "set (re_sub p repl s) \<subseteq> set s \<union> set repl"
  by (simp add: re_sub_def set_sub_from)

lemma sub_from_Chr_removes:
  "c \<in> set (sub_from [Chr f] [] 0 prev s) \<Longrightarrow> \<not> f c"
  by (induction s arbitrary: prev) (auto split: if_splits)

lemma set_strip: "set (strip s) \<subseteq> set s"
  by (auto simp: strip_def dest!: set_dropWhileD)

lemma set_str_join: "set (str_join sep xs) \<subseteq> set sep \<union> \<Union> (set ` set xs)"
  by (induction sep xs rule: str_join.induct) auto

lemma set_keep_lines: "\<Union> (set ` set (keep_lines ls)) \<subseteq> \<Union> (set ` set ls)"
proof (induction ls)
  case Nil
  then show ?case by simp
next
  case (Cons l ls)
  have "set (strip l) \<subseteq> set l" by (rule set_strip)
  with Cons show ?case by (auto simp: Let_def)
qed

lemma set_str_split: "p \<in> set (str_split sep s) \<Longrightarrow> set p \<subseteq> set s"
proof (induction s arbitrary: p)
  case Nil
  then show ?case by simp
next
  case (Cons c cs)
  show ?case
  proof (cases "c = sep")
    case True
    with Cons show ?thesis by auto
  next
    case False
    obtain q qs where split: "str_split sep cs = q # qs"
      using str_split_not_Nil [of sep cs] by (cases "str_split sep cs") auto
    with False Cons.prems have "p = c # q \<or> p \<in> set qs" by auto
    then show ?thesis
    proof
      assume "p = c # q"
      moreover have "set q \<subseteq> set cs" using Cons.IH [of q] split by simp
      ultimately show ?thesis by auto
    next
      assume "p \<in> set qs"
      then have "set p \<subseteq> set cs" using Cons.IH [of p] split by simp
      then show ?thesis by auto
    qed
  qed
qed

lemma set_keep_lines_split:
  "set (str_join '' '' (keep_lines (str_split sep s))) \<subseteq> insert CHR '' '' (set s)"
proof -
  have "\<Union> (set ` set (keep_lines (str_split sep s))) \<subseteq> \<Union> (set ` set (str_split sep s))"
    by (rule set_keep_lines)
  also have "\<dots> \<subseteq> set s"
    using set_str_split by fastforce
  finally have "\<Union> (set ` set (keep_lines (str_split sep s))) \<subseteq> set s" .
  with set_str_join [of "'' ''" "keep_lines (str_split sep s)"] show ?thesis
    by (simp add: subset_iff) blast
qed

lemma select_top_text: "select_top = ''select top 50 ''"
  by code_simp

lemma set_clean_sql:
  assumes "c \<in> set (clean_sql sql)"
  shows "c \<noteq> CHR '';'' \<and> \<not> slash_class c"
proof -
  define sql5 where "sql5 =
    re_sub (lit ''--'' @ [Rep not_newline 0 True, EndLine]) []
      (re_sub (lit ''/*'' @ [Rep any_char 0 False] @ lit ''*/'') []
        (re_sub (lit_i ''<<SYS>>'' @ [Rep any_char 0 True, EndStr]) []
          (re_sub (lit_i ''[/INST]'' @ [Rep any_char 0 True, EndStr]) []
            (re_sub (lit_i ''```'' @ [Rep any_char 0 True, EndStr]) [] sql))))"
  define sql6 where "sql6 = re_sub [Chr slash_class] [] sql5"
  define sql7 where "sql7 = strip (re_sub [Rep is_space 1 True] '' '' sql6)"
  define sql8 where "sql8 =
    (if contains (lower sql7) ''select'' \<and> \<not> contains (lower sql7) ''top ''
     then re_sub select_ws select_top sql7 else sql7)"
  define sql9 where "sql9 = strip (hd (str_split CHR '';'' sql8))"
  have result: "clean_sql sql = strip (str_join '' '' (keep_lines (str_split newline sql9)))"
    by (simp add: clean_sql_def Let_def sql5_def sql6_def sql7_def sql8_def sql9_def)
  have s6: "\<not> slash_class d" if "d \<in> set sql6" for d
    using that by (auto simp: sql6_def re_sub_def dest: sub_from_Chr_removes)
  have s7: "set sql7 \<subseteq> insert CHR '' '' (set sql6)"
    using set_strip [of "re_sub [Rep is_space 1 True] '' '' sql6"]
          set_re_sub [of "[Rep is_space 1 True]" "'' ''" sql6]
    by (auto simp: sql7_def)
  have s8: "set sql8 \<subseteq> set sql7 \<union> set select_top"
    using set_re_sub [of select_ws select_top sql7]
    by (auto simp: sql8_def)
  have s9: "set sql9 \<subseteq> {d \<in> set sql8. d \<noteq> CHR '';''}"
    using set_strip [of "hd (str_split CHR '';'' sql8)"]
    by (auto simp: sql9_def hd_str_split dest: set_takeWhileD)
  have top: "\<not> slash_class d" if "d \<in> set select_top" for d
    using that unfolding select_top_text by (simp add: slash_class_def backslash_def) blast
  have space: "\<not> slash_class CHR '' ''" "CHR '' '' \<noteq> CHR '';''"
    by (simp_all add: slash_class_def backslash_def)
  have "set (clean_sql sql) \<subseteq> insert CHR '' '' (set sql9)"
    using set_strip [of "str_join '' '' (keep_lines (str_split newline sql9))"]
          set_keep_lines_split [of newline sql9]
    unfolding result by (rule subset_trans)
  with assms have "c = CHR '' '' \<or> c \<in> set sql9" by blast
  then show ?thesis
  proof
    assume "c = CHR '' ''"
    with space show ?thesis by simp
  next
    assume "c \<in> set sql9"
    with s9 have c8: "c \<in> set sql8" and semi: "c \<noteq> CHR '';''" by blast+
    from c8 s8 s7 have "c = CHR '' '' \<or> c \<in> set sql6 \<or> c \<in> set select_top"
      by blast
    with space(1) s6 top have "\<not> slash_class c" by blast
    with semi show ?thesis by simp
  qed
qed

text \<open>
  Claim C8. The cleaned text is claimed to contain no line comment. The comments are
  removed before the slashes are: a slash between two hyphens hides the comment marker
  from the comment pattern, and deleting the slash then puts the marker together.
\<close>

theorem clean_sql_leaves_line_comment:
  "clean_sql ''select a -/- b'' = ''select top 50 a -- b''
   \<and> contains (clean_sql ''select a -/- b'') ''--''"
  by code_simp

section \<open>QueryExecutor: driver errors are cut to their first line\<close>

text \<open>
  Claim C9. Let a statement pass both checks of \<open>execute_query\<close>, and let the driver fail
  on it with the text \<open>m\<close>, at \<open>cursor.execute\<close> or at \<open>cursor.fetchall\<close>. Then no
  rows are returned, and the error message has no newline: it is \<open>SQL error:\<close> followed
  by the first line of \<open>m\<close>, or the fixed message of the outer handler when the
  connection could not be set up or torn down. When the first connection attempt, the
  cursor, the commit and the close all succeed, it is the first line of \<open>m\<close>.
\<close>

theorem driver_error_first_line:
  assumes sel: "startswith (lower (strip query)) ''select''"
    and safe: "is_query_safe query"
    and fails: "on_execute w query = ExecFails (PyodbcError m)
         \<or> (\<exists>cols. cols \<noteq> []
               \<and> on_execute w query = Executed (Some cols) (FetchFails (PyodbcError m)))"
  shows "\<exists>msg tr. execute_query w query = (Inr ([], Some msg), tr)
           \<and> newline \<notin> set msg
           \<and> (msg = ''SQL error: '' @ takeWhile (\<lambda>c. c \<noteq> newline) m
              \<or> msg = ''Unexpected database error'')
           \<and> (env_set w \<and> on_connect w 0 = Ok \<and> on_cursor w = Ok \<and> on_cursor_exit w = Ok
                \<and> on_commit w = Ok \<and> on_close w = Ok
              \<longrightarrow> msg = ''SQL error: '' @ takeWhile (\<lambda>c. c \<noteq> newline) m)"
proof -
  let ?first = "''SQL error: '' @ takeWhile (\<lambda>c. c \<noteq> newline) m"
  let ?run = "with_connection w (with_cursor w (run_statement w query)) []"
  have no_nl: "newline \<notin> set ?first"
    by (auto simp: newline_def dest: set_takeWhileD)
  have no_nl': "newline \<notin> set ''Unexpected database error''"
    by (simp add: newline_def)
  obtain r tr where run: "?run = (r, tr)"
    by (cases ?run) auto
  have good: "?run = (Inr ([], Some ?first),
                 [Connect, Cursor, Execute query, CursorExit, Commit, Close])"
    if "env_set w" "on_connect w 0 = Ok" "on_cursor w = Ok" "on_cursor_exit w = Ok"
       "on_commit w = Ok" "on_close w = Ok"
    using that run_statement_driver_error [OF fails]
    by (simp add: with_connection_def with_cursor_def exit_normal_def connect_loop_first_ok
        del: connect_loop.simps)
  show ?thesis
  proof (cases r)
    case (Inl e)
    with sel safe run
    have eq: "execute_query w query = (Inr ([], Some ''Unexpected database error''), tr)"
      by (simp add: execute_query_def)
    have "\<not> (env_set w \<and> on_connect w 0 = Ok \<and> on_cursor w = Ok \<and> on_cursor_exit w = Ok
                \<and> on_commit w = Ok \<and> on_close w = Ok)"
      using good run Inl by auto
    with eq no_nl' show ?thesis by blast
  next
    case (Inr res)
    from run Inr have "?run = (Inr res, tr)" by simp
    from with_connection_Inr [OF this]
    obtain tr0 tr1 where "with_cursor w (run_statement w query) tr0 = (Inr res, tr1)"
      by blast
    from with_cursor_Inr [OF this]
    obtain tr2 where "run_statement w query (tr0 @ [Cursor]) = (Inr res, tr2)"
      by blast
    with run_statement_driver_error [OF fails, of "tr0 @ [Cursor]"]
    have "res = ([], Some ?first)" by simp
    with sel safe run Inr have "execute_query w query = (Inr ([], Some ?first), tr)"
      by (simp add: execute_query_def)
    with no_nl show ?thesis by blast
  qed
qed

theorem driver_error_first_line_witness:
  "startswith (lower (strip ''select x from t'')) ''select''
   \<and> is_query_safe ''select x from t''
   \<and> on_execute rejecting ''select x from t''
       = ExecFails (PyodbcError (''Invalid column name'' @ [newline] @ ''near line 1''))
   \<and> fst (execute_query rejecting ''select x from t'')
       = Inr ([], Some ''SQL error: Invalid column name'')"
proof -
  let ?m = "''Invalid column name'' @ [newline] @ ''near line 1''"
  have sel: "startswith (lower (strip ''select x from t'')) ''select''"
    by code_simp
  have safe: "is_query_safe ''select x from t''"
    by code_simp
  have fails: "on_execute rejecting ''select x from t'' = ExecFails (PyodbcError ?m)"
    by (simp add: rejecting_def answering_def)
  have either: "on_execute rejecting ''select x from t'' = ExecFails (PyodbcError ?m)
         \<or> (\<exists>cols. cols \<noteq> []
               \<and> on_execute rejecting ''select x from t''
                   = Executed (Some cols) (FetchFails (PyodbcError ?m)))"
    using fails by (rule disjI1)
  have calm: "env_set rejecting \<and> on_connect rejecting 0 = Ok \<and> on_cursor rejecting = Ok
      \<and> on_cursor_exit rejecting = Ok \<and> on_commit rejecting = Ok \<and> on_close rejecting = Ok"
    by (simp add: rejecting_def answering_def)
  have line: "takeWhile (\<lambda>c. c \<noteq> newline) ?m = ''Invalid column name''"
    by (simp add: newline_def)
  from driver_error_first_line [OF sel safe either]
  obtain msg tr where res: "execute_query rejecting ''select x from t'' = (Inr ([], Some msg), tr)"
    and good: "env_set rejecting \<and> on_connect rejecting 0 = Ok \<and> on_cursor rejecting = Ok
        \<and> on_cursor_exit rejecting = Ok \<and> on_commit rejecting = Ok \<and> on_close rejecting = Ok
        \<longrightarrow> msg = ''SQL error: '' @ takeWhile (\<lambda>c. c \<noteq> newline) ?m"
    by blast
  from good calm have "msg = ''SQL error: '' @ takeWhile (\<lambda>c. c \<noteq> newline) ?m"
    by (rule mp)
  then have "msg = ''SQL error: Invalid column name''"
    by (simp only: line) simp
  with res have "fst (execute_query rejecting ''select x from t'')
                   = Inr ([], Some ''SQL error: Invalid column name'')"
    by (simp only: fst_conv)
  with sel safe fails show ?thesis
    by (intro conjI)
qed

section \<open>RateLimiter: the bound on the window\<close>

lemma check_preserves_bound:
  assumes "length (window_of st u) \<le> MAX_REQUESTS_PER_MINUTE"
  shows "length (window_of (snd (check_rate_limit v now r st)) u) \<le> MAX_REQUESTS_PER_MINUTE"
proof (cases "u = v")
  case False
  then show ?thesis using assms by (simp add: window_of_check_other)
next
  case True
  define w where "w = filter (\<lambda>t. now - t < 60) (window_of st u)"
  have "length w \<le> length (window_of st u)"
    unfolding w_def by (rule length_filter_le)
  with assms have le: "length w \<le> MAX_REQUESTS_PER_MINUTE"
    by simp
  have "window_of (snd (check_rate_limit u now r st)) u =
          (if length w \<ge> MAX_REQUESTS_PER_MINUTE then w else w @ [now])"
    by (simp add: window_of_check_same w_def Let_def)
  with le True show ?thesis
    by (cases "length w \<ge> MAX_REQUESTS_PER_MINUTE") simp_all
qed

lemma run_calls_preserves_bound:
  "length (window_of st u) \<le> MAX_REQUESTS_PER_MINUTE \<Longrightarrow>
   length (window_of (snd (run_calls cs st)) u) \<le> MAX_REQUESTS_PER_MINUTE"
proof (induction cs arbitrary: st)
  case Nil
  then show ?case by simp
next
  case (Cons c cs)
  have "length (window_of (snd (check_rate_limit (caller c) (at_time c) (reply_ok c) st)) u)
          \<le> MAX_REQUESTS_PER_MINUTE"
    using Cons.prems by (rule check_preserves_bound)
  from Cons.IH [OF this] show ?case
    by (simp add: case_prod_unfold Let_def)
qed

text \<open>
  Claim C10. Starting from the empty dict of \<open>__init__\<close>, after any sequence of
  \<open>check_rate_limit\<close> calls by any callers, the recorded window of every caller holds at
  most \<open>MAX_REQUESTS_PER_MINUTE\<close> = 10 timestamps. Every prefix of a sequence of calls is
  itself a sequence of calls, so the bound holds after each call completes.
\<close>

theorem rate_window_bounded:
  "length (window_of (snd (run_calls cs rate_limiter_init)) u) \<le> 10"
proof -
  have "length (window_of rate_limiter_init u) \<le> MAX_REQUESTS_PER_MINUTE"
    by (simp add: window_of_def rate_limiter_init_def)
  from run_calls_preserves_bound [OF this] show ?thesis
    by (simp add: MAX_REQUESTS_PER_MINUTE_def)
qed

end
